theory Spec2Isabelle
  imports Complex_Main "HOL-Library.Word" "HOL-Library.Multiset"
begin

section \<open>JavaScript values\<close>

text \<open>
  A JavaScript string is a sequence of 16-bit code units. A literal of the source is
  written \<open>str ''todo''\<close>.
\<close>

type_synonym jsstring = "16 word list"

definition str :: "string \<Rightarrow> jsstring" where
  "str s = map (\<lambda>c. of_nat (of_char c)) s"

text \<open>
  \<open>String.prototype.trim\<close> removes WhiteSpace and LineTerminator code points from both
  ends: TAB, LF, VT, FF, CR, SP, NBSP, U+1680, U+2000 to U+200A, U+2028, U+2029, U+202F,
  U+205F, U+3000 and U+FEFF. All of them are single code units.
\<close>

definition isWhiteSpace :: "16 word \<Rightarrow> bool" where
  "isWhiteSpace c \<longleftrightarrow>
     c = 0x09 \<or> c = 0x0A \<or> c = 0x0B \<or> c = 0x0C \<or> c = 0x0D \<or> c = 0x20 \<or> c = 0xA0 \<or>
     c = 0x1680 \<or> (0x2000 \<le> c \<and> c \<le> 0x200A) \<or> c = 0x2028 \<or> c = 0x2029 \<or>
     c = 0x202F \<or> c = 0x205F \<or> c = 0x3000 \<or> c = 0xFEFF"

definition trim :: "jsstring \<Rightarrow> jsstring" where
  "trim s = rev (dropWhile isWhiteSpace (rev (dropWhile isWhiteSpace s)))"

text \<open>
  The values \<open>express.json()\<close> and the query parser hand to a handler. A JSON number is
  a double; parsing never yields NaN, but an overflowing literal yields an infinity.
\<close>

datatype jsnumber = Finite rat | PosInfinity | NegInfinity

datatype jsval =
    JUndefined
  | JNull
  | JBool bool
  | JNumber jsnumber
  | JString jsstring
  | JArray "jsval list"
  | JObject "(jsstring \<times> jsval) list"

text \<open>ToBoolean, as applied by \<open>!x\<close>, \<open>x && y\<close> and \<open>if (x)\<close>.\<close>

fun truthy :: "jsval \<Rightarrow> bool" where
  "truthy JUndefined = False"
| "truthy JNull = False"
| "truthy (JBool b) = b"
| "truthy (JNumber n) = (n \<noteq> Finite 0)"
| "truthy (JString s) = (s \<noteq> [])"
| "truthy (JArray _) = True"
| "truthy (JObject _) = True"

fun typeof :: "jsval \<Rightarrow> string" where
  "typeof JUndefined = ''undefined''"
| "typeof JNull = ''object''"
| "typeof (JBool _) = ''boolean''"
| "typeof (JNumber _) = ''number''"
| "typeof (JString _) = ''string''"
| "typeof (JArray _) = ''object''"
| "typeof (JObject _) = ''object''"

text \<open>
  \<open>Array.prototype.includes\<close> on an array of string literals: SameValueZero equates a
  value with a string only when the value is that string.
\<close>

fun arrayIncludes :: "jsstring list \<Rightarrow> jsval \<Rightarrow> bool" where
  "arrayIncludes xs (JString s) = (s \<in> set xs)"
| "arrayIncludes xs _ = False"

text \<open>
  \<open>Array.prototype.findIndex\<close>: the index of the first element satisfying the predicate,
  or \<open>-1\<close>.
\<close>

fun findIndex :: "('a \<Rightarrow> bool) \<Rightarrow> 'a list \<Rightarrow> int" where
  "findIndex P [] = - 1"
| "findIndex P (x # xs) =
     (if P x then 0
      else (let i = findIndex P xs in if i = - 1 then - 1 else i + 1))"

text \<open>\<open>xs.splice(i, 1)\<close> for an index inside the array.\<close>

definition splice1 :: "nat \<Rightarrow> 'a list \<Rightarrow> 'a list" where
  "splice1 i xs = take i xs @ drop (Suc i) xs"

text \<open>
  A \<open>Date\<close> is its time value, the milliseconds since the epoch. \<open>Number.prototype.toString\<close>
  of an integer time value is its decimal numeral.
\<close>

type_synonym date = int

fun digits :: "nat \<Rightarrow> jsstring" where
  "digits n = (if n < 10 then [of_nat (48 + n)]
               else digits (n div 10) @ [of_nat (48 + n mod 10)])"

declare digits.simps [simp del]

definition toString :: "int \<Rightarrow> jsstring" where
  "toString i = (if i < 0 then 0x2D # digits (nat (- i)) else digits (nat i))"

section \<open>The task server\<close>

text \<open>
  The five properties a handler destructures from \<open>req.body\<close>, the value that
  \<open>express.json()\<close> parsed; a property the body lacks is \<open>JUndefined\<close>.
\<close>

record body =
  title :: jsval
  description :: jsval
  priority :: jsval
  status :: jsval
  dueDate :: jsval

text \<open>
  The two parameters the list handler destructures from \<open>req.query\<close>: a string, an array
  or an object when the parameter is given, \<open>JUndefined\<close> otherwise.
\<close>

record query =
  status :: jsval
  priority :: jsval

text \<open>The \<open>payload\<close> object of the create handler; \<open>None\<close> is a property never assigned.\<close>

record payload =
  title :: jsstring
  description :: "jsstring option"
  priority :: "jsstring option"
  status :: "jsstring option"
  dueDate :: "date option"

text \<open>The \<open>update\<close> object of the update handler.\<close>

record update =
  title :: "jsstring option"
  description :: "jsstring option"
  priority :: "jsstring option"
  status :: "jsstring option"
  dueDate :: "date option"

text \<open>
  A document of the \<open>Task\<close> model: \<open>objectId\<close> is its \<open>_id\<close>, and a path without a value
  is \<open>None\<close> (\<open>undefined\<close> when read).
\<close>

record document =
  objectId :: jsstring
  title :: jsstring
  description :: "jsstring option"
  priority :: jsstring
  status :: jsstring
  dueDate :: "date option"
  createdAt :: date
  updatedAt :: date

text \<open>
  The object the database branch of a handler sends: \<open>None\<close> in \<open>description\<close> or
  \<open>dueDate\<close> is \<open>undefined\<close>, a key that \<open>res.json\<close> leaves out.
\<close>

record docJson =
  id :: jsstring
  title :: jsstring
  description :: "jsstring option"
  priority :: jsstring
  status :: jsstring
  dueDate :: "date option"
  createdAt :: date

text \<open>
  A task of the in-memory store, which is also the JSON shape of the API: \<open>dueDate\<close> is a
  \<open>Date\<close> or \<open>null\<close> (\<open>None\<close>).
\<close>

record task =
  id :: jsstring
  title :: jsstring
  description :: jsstring
  priority :: jsstring
  status :: jsstring
  dueDate :: "date option"
  createdAt :: date

datatype resbody =
    TaskJson task
  | TasksJson "task list"
  | DocJson docJson
  | ErrorJson string
  | NoBody

type_synonym response = "nat \<times> resbody"

definition allowedPriority :: "jsstring list" where
  "allowedPriority = [str ''low'', str ''medium'', str ''high'']"

definition allowedStatus :: "jsstring list" where
  "allowedStatus = [str ''todo'', str ''in-progress'', str ''done'']"

text \<open>\<open>x || d\<close> for a string property that may be unassigned.\<close>

definition orElse :: "jsstring option \<Rightarrow> jsstring \<Rightarrow> jsstring" where
  "orElse v d = (case v of None \<Rightarrow> d | Some s \<Rightarrow> if s = [] then d else s)"

text \<open>
  The title test of the create handler:
  \<open>!title || typeof title !== "string" || !title.trim()\<close>.
\<close>

definition titleRejected :: "jsval \<Rightarrow> bool" where
  "titleRejected v \<longleftrightarrow>
     \<not> truthy v \<or> typeof v \<noteq> ''string'' \<or>
     (case v of JString s \<Rightarrow> \<not> truthy (JString (trim s)) | _ \<Rightarrow> True)"

text \<open>
  \<open>new Date(v)\<close> first converts an object or an array to a primitive: it calls \<open>valueOf\<close>,
  then \<open>toString\<close>, skipping one that is not callable, and throws a TypeError when
  neither gives a primitive. In a parsed JSON object an own \<open>valueOf\<close> or \<open>toString\<close> is
  a JSON value, never callable, and the inherited \<open>valueOf\<close> returns the object itself;
  so the conversion throws exactly when the object has an own key \<open>toString\<close>, and
  otherwise the inherited \<open>toString\<close> gives a string. An array is joined, which converts
  each element other than \<open>null\<close> to a string, and throws when an element does.
\<close>

datatype jsError = TypeError

fun toPrimitiveThrows :: "jsval \<Rightarrow> bool" where
  "toPrimitiveThrows (JObject ps) = (str ''toString'' \<in> fst ` set ps)"
| "toPrimitiveThrows (JArray xs) = (\<exists>x\<in>set xs. toPrimitiveThrows x)"
| "toPrimitiveThrows JUndefined = False"
| "toPrimitiveThrows JNull = False"
| "toPrimitiveThrows (JBool b) = False"
| "toPrimitiveThrows (JNumber n) = False"
| "toPrimitiveThrows (JString s) = False"

text \<open>
  Where the conversion returns, the time value of \<open>new Date(v)\<close> is the parameter
  \<open>newDate\<close> of the handlers, \<open>None\<close> where \<open>getTime()\<close> is NaN: how a string is parsed is
  left to the engine. \<open>constructDate\<close> is \<open>new Date(v)\<close> with its two outcomes.
\<close>

definition constructDate :: "(jsval \<Rightarrow> date option) \<Rightarrow> jsval \<Rightarrow> jsError + date option" where
  "constructDate newDate v = (if toPrimitiveThrows v then Inl TypeError else Inr (newDate v))"

text \<open>
  The \<open>dueDate\<close> step of the create and update handlers: \<open>Inr None\<close> leaves the
  property unassigned, \<open>Inl\<close> is the exception that the handler's \<open>catch\<close> receives.
\<close>

definition parsedDueDate ::
  "(jsval \<Rightarrow> date option) \<Rightarrow> jsval \<Rightarrow> jsError + date option" where
  "parsedDueDate newDate v = (if truthy v then constructDate newDate v else Inr None)"

text \<open>
  The payload built by the create handler once the title has passed the test; the
  \<open>dueDate\<close> step is the only one that can throw.
\<close>

definition buildPayload :: "(jsval \<Rightarrow> date option) \<Rightarrow> body \<Rightarrow> jsError + payload" where
  "buildPayload newDate b =
     (case parsedDueDate newDate (body.dueDate b) of
        Inl e \<Rightarrow> Inl e
      | Inr parsed \<Rightarrow>
          Inr \<lparr> payload.title = (case body.title b of JString s \<Rightarrow> trim s | _ \<Rightarrow> []),
                payload.description =
                  (case body.description b of
                     JString s \<Rightarrow> if truthy (JString s) then Some (trim s) else None
                   | _ \<Rightarrow> None),
                payload.priority =
                  (case body.priority b of
                     JString s \<Rightarrow>
                       if truthy (JString s) \<and> arrayIncludes allowedPriority (JString s)
                       then Some s else None
                   | _ \<Rightarrow> None),
                payload.status =
                  (case body.status b of
                     JString s \<Rightarrow>
                       if truthy (JString s) \<and> arrayIncludes allowedStatus (JString s)
                       then Some s else None
                   | _ \<Rightarrow> None),
                payload.dueDate = parsed \<rparr>)"

section \<open>The in-memory store\<close>

text \<open>
  The handlers with \<open>useDatabase\<close> false. The store is the array \<open>inMemoryTasks\<close>; a handler
  takes it and returns the response with the array as the handler leaves it. An
  exception thrown in the \<open>try\<close> block is answered with 500 by the \<open>catch\<close>. The create
  handler reads the clock twice: \<open>now\<close> is the value of \<open>new Date()\<close>, \<open>dateNow\<close> the value
  of the later \<open>Date.now()\<close>. With \<open>useDatabase\<close> true the list, update and delete
  handlers pass the request to the queries of the \<open>Task\<close> model, which are no part of
  these sources; of that mode only the create handler is modelled, further below.
\<close>

definition postTasks ::
  "(jsval \<Rightarrow> date option) \<Rightarrow> date \<Rightarrow> int \<Rightarrow> task list \<Rightarrow> body \<Rightarrow> response \<times> task list" where
  "postTasks newDate now dateNow inMemoryTasks b =
     (if titleRejected (body.title b)
      then ((400, ErrorJson ''title is required''), inMemoryTasks)
      else
        (case buildPayload newDate b of
           Inl e \<Rightarrow> ((500, ErrorJson ''Failed to create task''), inMemoryTasks)
         | Inr payload \<Rightarrow>
             (let task = \<lparr> id = toString dateNow,
                           title = payload.title payload,
                           description = orElse (payload.description payload) [],
                           priority = orElse (payload.priority payload) (str ''medium''),
                           status = orElse (payload.status payload) (str ''todo''),
                           dueDate = payload.dueDate payload,
                           createdAt = now \<rparr>
              in ((201, TaskJson task), task # inMemoryTasks))))"

text \<open>
  The \<open>update\<close> object of the update handler, built the same way in both modes, before
  the task is looked up.
\<close>

definition buildUpdate :: "(jsval \<Rightarrow> date option) \<Rightarrow> body \<Rightarrow> jsError + update" where
  "buildUpdate newDate b =
     (case parsedDueDate newDate (body.dueDate b) of
        Inl e \<Rightarrow> Inl e
      | Inr parsed \<Rightarrow>
          Inr \<lparr> update.title = (case body.title b of JString s \<Rightarrow> Some (trim s) | _ \<Rightarrow> None),
                update.description =
                  (case body.description b of JString s \<Rightarrow> Some (trim s) | _ \<Rightarrow> None),
                update.priority =
                  (case body.priority b of
                     JString s \<Rightarrow>
                       if truthy (JString s) \<and> arrayIncludes allowedPriority (JString s)
                       then Some s else None
                   | _ \<Rightarrow> None),
                update.status =
                  (case body.status b of
                     JString s \<Rightarrow>
                       if truthy (JString s) \<and> arrayIncludes allowedStatus (JString s)
                       then Some s else None
                   | _ \<Rightarrow> None),
                update.dueDate = parsed \<rparr>)"

text \<open>\<open>{ ...current, ...update }\<close>: a property assigned in \<open>update\<close> replaces that of \<open>current\<close>.\<close>

definition spread :: "task \<Rightarrow> update \<Rightarrow> task" where
  "spread current u =
     current
       \<lparr> title := (case update.title u of Some v \<Rightarrow> v | None \<Rightarrow> title current),
         description := (case update.description u of Some v \<Rightarrow> v | None \<Rightarrow> description current),
         priority := (case update.priority u of Some v \<Rightarrow> v | None \<Rightarrow> priority current),
         status := (case update.status u of Some v \<Rightarrow> v | None \<Rightarrow> status current),
         dueDate := (case update.dueDate u of Some v \<Rightarrow> Some v | None \<Rightarrow> dueDate current) \<rparr>"

definition patchTask ::
  "(jsval \<Rightarrow> date option) \<Rightarrow> task list \<Rightarrow> jsstring \<Rightarrow> body \<Rightarrow> response \<times> task list" where
  "patchTask newDate inMemoryTasks ident b =
     (case buildUpdate newDate b of
        Inl e \<Rightarrow> ((500, ErrorJson ''Failed to update task''), inMemoryTasks)
      | Inr u \<Rightarrow>
          (let index = findIndex (\<lambda>task. id task = ident) inMemoryTasks
           in if index = - 1 then ((404, ErrorJson ''Task not found''), inMemoryTasks)
              else
                (let current = inMemoryTasks ! nat index;
                     updated = spread current u
                 in ((200, TaskJson updated), inMemoryTasks[nat index := updated]))))"

definition deleteTask :: "task list \<Rightarrow> jsstring \<Rightarrow> response \<times> task list" where
  "deleteTask inMemoryTasks ident =
     (let index = findIndex (\<lambda>task. id task = ident) inMemoryTasks
      in if index = - 1 then ((404, ErrorJson ''Task not found''), inMemoryTasks)
         else ((204, NoBody), splice1 (nat index) inMemoryTasks))"

text \<open>\<open>task.status === status\<close>: a stored string is strictly equal to that string only.\<close>

definition getTasks :: "task list \<Rightarrow> query \<Rightarrow> response" where
  "getTasks inMemoryTasks q =
     (let tasks = inMemoryTasks;
          tasks = (if truthy (query.status q)
                   then filter (\<lambda>task. JString (status task) = query.status q) tasks
                   else tasks);
          tasks = (if truthy (query.priority q)
                   then filter (\<lambda>task. JString (priority task) = query.priority q) tasks
                   else tasks)
      in (200, TasksJson tasks))"

text \<open>A run of the in-memory server from the empty array it starts with.\<close>

datatype request =
    Post date int body
  | Patch jsstring body
  | Delete jsstring

fun handle :: "(jsval \<Rightarrow> date option) \<Rightarrow> task list \<Rightarrow> request \<Rightarrow> task list" where
  "handle newDate s (Post now dateNow b) = snd (postTasks newDate now dateNow s b)"
| "handle newDate s (Patch ident b) = snd (patchTask newDate s ident b)"
| "handle newDate s (Delete ident) = snd (deleteTask s ident)"

definition run :: "(jsval \<Rightarrow> date option) \<Rightarrow> request list \<Rightarrow> task list" where
  "run newDate reqs = foldl (handle newDate) [] reqs"

text \<open>
  The \<open>new Date()\<close> readings of the create requests of a run that store a task, in the
  order of the requests; a request that is answered with 400 or 500 returns before it
  reads the clock.
\<close>

fun createTimes :: "request list \<Rightarrow> date list" where
  "createTimes [] = []"
| "createTimes (Post now dateNow b # rs) =
     (if titleRejected (body.title b) \<or> toPrimitiveThrows (body.dueDate b)
      then createTimes rs else now # createTimes rs)"
| "createTimes (Patch ident b # rs) = createTimes rs"
| "createTimes (Delete ident # rs) = createTimes rs"

text \<open>Ordered by \<open>createdAt\<close> descending: no task is followed by one created later.\<close>

definition newestFirst :: "task list \<Rightarrow> bool" where
  "newestFirst ts = sorted_wrt (\<lambda>a b. createdAt b \<le> createdAt a) ts"

section \<open>The database branch of the create handler\<close>

text \<open>
  What \<open>Task.create(payload)\<close> does with the schema of \<open>models/Task.js\<close>: \<open>title\<close> and
  \<open>description\<close> are trimmed; \<open>title\<close> is required, and the required validator refuses
  the empty string; \<open>priority\<close> and \<open>status\<close> must lie in their \<open>enum\<close> and take their
  \<open>default\<close> when the payload lacks them; \<open>description\<close> and \<open>dueDate\<close> have no default
  and stay without a value; \<open>timestamps\<close> sets \<open>createdAt\<close> and \<open>updatedAt\<close>. The store
  supplies the \<open>_id\<close> and the time. A failure of the connection is not modelled.
\<close>

datatype dbError = ValidationError

definition taskCreate :: "jsstring \<Rightarrow> date \<Rightarrow> payload \<Rightarrow> dbError + document" where
  "taskCreate oid now p =
     (let t = trim (payload.title p) in
      if t = [] then Inl ValidationError
      else if (case payload.priority p of
                 Some v \<Rightarrow> v \<notin> set [str ''low'', str ''medium'', str ''high'']
               | None \<Rightarrow> False)
      then Inl ValidationError
      else if (case payload.status p of
                 Some v \<Rightarrow> v \<notin> set [str ''todo'', str ''in-progress'', str ''done'']
               | None \<Rightarrow> False)
      then Inl ValidationError
      else Inr \<lparr> objectId = oid,
                 document.title = t,
                 document.description = map_option trim (payload.description p),
                 document.priority =
                   (case payload.priority p of Some v \<Rightarrow> v | None \<Rightarrow> str ''medium''),
                 document.status =
                   (case payload.status p of Some v \<Rightarrow> v | None \<Rightarrow> str ''todo''),
                 document.dueDate = payload.dueDate p,
                 document.createdAt = now,
                 updatedAt = now \<rparr>)"

text \<open>
  The create handler with \<open>useDatabase\<close> true, over the collection of stored documents;
  \<open>oid\<close> and \<open>dbNow\<close> are the identifier and the time the store gives the new document.
  The \<open>catch\<close> answers 500 to an exception of the \<open>dueDate\<close> step and to a rejection by
  \<open>Task.create\<close> alike.
\<close>

definition postTasksDatabase ::
  "(jsval \<Rightarrow> date option) \<Rightarrow> jsstring \<Rightarrow> date \<Rightarrow> document list \<Rightarrow> body
     \<Rightarrow> response \<times> document list" where
  "postTasksDatabase newDate oid dbNow collection b =
     (if titleRejected (body.title b)
      then ((400, ErrorJson ''title is required''), collection)
      else
        (case buildPayload newDate b of
           Inl e \<Rightarrow> ((500, ErrorJson ''Failed to create task''), collection)
         | Inr payload \<Rightarrow>
             (case taskCreate oid dbNow payload of
                Inl e \<Rightarrow> ((500, ErrorJson ''Failed to create task''), collection)
              | Inr task \<Rightarrow>
                  ((201, DocJson \<lparr> docJson.id = objectId task,
                                   docJson.title = document.title task,
                                   docJson.description = document.description task,
                                   docJson.priority = document.priority task,
                                   docJson.status = document.status task,
                                   docJson.dueDate = document.dueDate task,
                                   docJson.createdAt = document.createdAt task \<rparr>),
                   collection @ [task]))))"

section \<open>The board view\<close>

text \<open>
  \<open>groupedTasks\<close> pushes each task to \<open>groups[task.status]\<close>. The object \<open>groups\<close> has the
  three keys of its literal and inherits those of \<open>Object.prototype\<close>: for an inherited
  key the property is neither \<open>null\<close> nor \<open>undefined\<close>, so \<open>?.\<close> goes on, \<open>push\<close> is
  \<open>undefined\<close> there and the call throws a TypeError. For any other key the property is
  \<open>undefined\<close> and the task is skipped. The field \<open>done'\<close> is the key \<open>done\<close>.
\<close>

record groups =
  todo :: "task list"
  inProgress :: "task list"
  done' :: "task list"

definition objectPrototypeKeys :: "jsstring list" where
  "objectPrototypeKeys =
     [str ''constructor'', str ''__defineGetter__'', str ''__defineSetter__'',
      str ''hasOwnProperty'', str ''__lookupGetter__'', str ''__lookupSetter__'',
      str ''isPrototypeOf'', str ''propertyIsEnumerable'', str ''toString'',
      str ''valueOf'', str ''__proto__'', str ''toLocaleString'']"

definition pushTask :: "groups \<Rightarrow> task \<Rightarrow> jsError + groups" where
  "pushTask g t =
     (if status t = str ''todo'' then Inr (g\<lparr>todo := todo g @ [t]\<rparr>)
      else if status t = str ''in-progress'' then Inr (g\<lparr>inProgress := inProgress g @ [t]\<rparr>)
      else if status t = str ''done'' then Inr (g\<lparr>done' := done' g @ [t]\<rparr>)
      else if status t \<in> set objectPrototypeKeys then Inl TypeError
      else Inr g)"

fun pushAll :: "groups \<Rightarrow> task list \<Rightarrow> jsError + groups" where
  "pushAll g [] = Inr g"
| "pushAll g (t # ts) = (case pushTask g t of Inl e \<Rightarrow> Inl e | Inr g' \<Rightarrow> pushAll g' ts)"

definition groupedTasks :: "task list \<Rightarrow> jsError + groups" where
  "groupedTasks tasks = pushAll \<lparr>todo = [], inProgress = [], done' = []\<rparr> tasks"

text \<open>
  \<open>completionRate\<close> divides and multiplies in binary64. A non-negative finite double is
  \<open>significand * 2 ^ exponent\<close>; \<open>roundQuotient a b\<close> is the quotient of two positive
  naturals rounded to 53 significant bits, ties to even, the rounding of every binary64
  operation. An array length and a count of its elements are below \<open>2 ^ 32\<close>, so the
  operands here are exact and no result leaves the normal range.
\<close>

record double =
  significand :: nat
  exponent :: int

fun bitLength :: "nat \<Rightarrow> nat" where
  "bitLength n = (if n = 0 then 0 else Suc (bitLength (n div 2)))"

declare bitLength.simps [simp del]

definition scaledDiv :: "nat \<Rightarrow> nat \<Rightarrow> int \<Rightarrow> nat \<times> nat" where
  "scaledDiv a b e =
     (if 0 \<le> e then (a div (b * 2 ^ nat e), a mod (b * 2 ^ nat e))
      else ((a * 2 ^ nat (- e)) div b, (a * 2 ^ nat (- e)) mod b))"

definition roundQuotient :: "nat \<Rightarrow> nat \<Rightarrow> double" where
  "roundQuotient a b =
     (let e0 = int (bitLength a) - int (bitLength b) - 53;
          e = (if fst (scaledDiv a b e0) < 2 ^ 53 then e0 else e0 + 1);
          q = fst (scaledDiv a b e);
          r = snd (scaledDiv a b e);
          d = (if 0 \<le> e then b * 2 ^ nat e else b)
      in \<lparr> significand = (if d < 2 * r \<or> (2 * r = d \<and> odd q) then q + 1 else q),
           exponent = e \<rparr>)"

definition ofNat :: "nat \<Rightarrow> double" where
  "ofNat n = \<lparr> significand = n, exponent = 0 \<rparr>"

definition fdiv :: "double \<Rightarrow> double \<Rightarrow> double" where
  "fdiv x y =
     (if significand x = 0 then \<lparr> significand = 0, exponent = 0 \<rparr>
      else (let q = roundQuotient (significand x) (significand y)
            in q\<lparr> exponent := exponent q + exponent x - exponent y \<rparr>))"

definition fmul :: "double \<Rightarrow> double \<Rightarrow> double" where
  "fmul x y =
     (if significand x * significand y = 0 then \<lparr> significand = 0, exponent = 0 \<rparr>
      else (let p = roundQuotient (significand x * significand y) 1
            in p\<lparr> exponent := exponent p + exponent x + exponent y \<rparr>))"

text \<open>\<open>Math.round\<close>: the nearest integer, a tie going up.\<close>

definition mathRound :: "double \<Rightarrow> int" where
  "mathRound x =
     (if 0 \<le> exponent x then int (significand x * 2 ^ nat (exponent x))
      else int ((significand x + 2 ^ (nat (- exponent x) - 1)) div 2 ^ nat (- exponent x)))"

definition completionRate :: "task list \<Rightarrow> int" where
  "completionRate tasks =
     (if length tasks = 0 then 0
      else
        (let doneCount = length (filter (\<lambda>task. status task = str ''done'') tasks)
         in mathRound (fmul (fdiv (ofNat doneCount) (ofNat (length tasks))) (ofNat 100))))"

section \<open>Array lookup\<close>

lemma findIndex_ge: "- 1 \<le> findIndex P xs"
  by (induction xs) (auto simp: Let_def)

lemma findIndex_none: "findIndex P xs = - 1 \<longleftrightarrow> (\<forall>x\<in>set xs. \<not> P x)"
proof (induction xs)
  case Nil
  show ?case by simp
next
  case (Cons x xs)
  have "- 1 \<le> findIndex P xs" by (rule findIndex_ge)
  then have "findIndex P xs + 1 \<noteq> - 1" by arith
  with Cons show ?case by (auto simp: Let_def)
qed

lemma findIndex_found:
  "findIndex P xs \<noteq> - 1 \<Longrightarrow>
     0 \<le> findIndex P xs \<and> nat (findIndex P xs) < length xs \<and> P (xs ! nat (findIndex P xs))"
proof (induction xs)
  case Nil
  then show ?case by simp
next
  case (Cons x xs)
  show ?case
  proof (cases "P x")
    case True
    then show ?thesis by simp
  next
    case False
    with Cons.prems have ne: "findIndex P xs \<noteq> - 1" by (auto simp: Let_def split: if_splits)
    from Cons.IH [OF ne] False ne show ?thesis
      by (auto simp: Let_def nat_add_distrib)
  qed
qed

section \<open>The due date step\<close>

lemma toPrimitiveThrows_truthy: "toPrimitiveThrows v \<Longrightarrow> truthy v"
  by (cases v) simp_all

lemma parsedDueDate_throws:
  "toPrimitiveThrows v \<Longrightarrow> parsedDueDate newDate v = Inl TypeError"
  by (simp add: parsedDueDate_def constructDate_def toPrimitiveThrows_truthy)

lemma parsedDueDate_returns:
  "\<not> toPrimitiveThrows v \<Longrightarrow>
     parsedDueDate newDate v = Inr (if truthy v then newDate v else None)"
  by (simp add: parsedDueDate_def constructDate_def)

lemma buildPayload_throws:
  "toPrimitiveThrows (body.dueDate b) \<Longrightarrow> buildPayload newDate b = Inl TypeError"
  by (simp add: buildPayload_def parsedDueDate_throws)

lemma buildUpdate_throws:
  "toPrimitiveThrows (body.dueDate b) \<Longrightarrow> buildUpdate newDate b = Inl TypeError"
  by (simp add: buildUpdate_def parsedDueDate_throws)

lemma buildPayload_returns:
  "\<not> toPrimitiveThrows (body.dueDate b) \<Longrightarrow> \<exists>p. buildPayload newDate b = Inr p"
  by (simp add: buildPayload_def parsedDueDate_returns)

lemma buildUpdate_returns:
  "\<not> toPrimitiveThrows (body.dueDate b) \<Longrightarrow> \<exists>u. buildUpdate newDate b = Inr u"
  by (simp add: buildUpdate_def parsedDueDate_returns)

lemma buildPayload_Inr_fields:
  assumes "buildPayload newDate b = Inr p"
  shows "\<not> toPrimitiveThrows (body.dueDate b)"
    and "payload.title p = (case body.title b of JString s \<Rightarrow> trim s | _ \<Rightarrow> [])"
    and "case payload.status p of Some s \<Rightarrow> s \<in> set allowedStatus | None \<Rightarrow> True"
proof -
  show nt: "\<not> toPrimitiveThrows (body.dueDate b)"
    using assms buildPayload_throws [of b newDate] by auto
  from assms have "\<exists>d. p =
      \<lparr> payload.title = (case body.title b of JString s \<Rightarrow> trim s | _ \<Rightarrow> []),
        payload.description =
          (case body.description b of
             JString s \<Rightarrow> if truthy (JString s) then Some (trim s) else None
           | _ \<Rightarrow> None),
        payload.priority =
          (case body.priority b of
             JString s \<Rightarrow>
               if truthy (JString s) \<and> arrayIncludes allowedPriority (JString s)
               then Some s else None
           | _ \<Rightarrow> None),
        payload.status =
          (case body.status b of
             JString s \<Rightarrow>
               if truthy (JString s) \<and> arrayIncludes allowedStatus (JString s)
               then Some s else None
           | _ \<Rightarrow> None),
        payload.dueDate = d \<rparr>"
    by (auto simp: buildPayload_def parsedDueDate_returns [OF nt])
  then obtain d where p: "p =
      \<lparr> payload.title = (case body.title b of JString s \<Rightarrow> trim s | _ \<Rightarrow> []),
        payload.description =
          (case body.description b of
             JString s \<Rightarrow> if truthy (JString s) then Some (trim s) else None
           | _ \<Rightarrow> None),
        payload.priority =
          (case body.priority b of
             JString s \<Rightarrow>
               if truthy (JString s) \<and> arrayIncludes allowedPriority (JString s)
               then Some s else None
           | _ \<Rightarrow> None),
        payload.status =
          (case body.status b of
             JString s \<Rightarrow>
               if truthy (JString s) \<and> arrayIncludes allowedStatus (JString s)
               then Some s else None
           | _ \<Rightarrow> None),
        payload.dueDate = d \<rparr>" ..
  show "payload.title p = (case body.title b of JString s \<Rightarrow> trim s | _ \<Rightarrow> [])"
    by (simp add: p)
  show "case payload.status p of Some s \<Rightarrow> s \<in> set allowedStatus | None \<Rightarrow> True"
    by (simp add: p split: jsval.splits)
qed

lemma buildUpdate_Inr_fields:
  assumes "buildUpdate newDate b = Inr u"
  shows "\<not> toPrimitiveThrows (body.dueDate b)"
    and "update.title u = (case body.title b of JString s \<Rightarrow> Some (trim s) | _ \<Rightarrow> None)"
    and "update.description u =
           (case body.description b of JString s \<Rightarrow> Some (trim s) | _ \<Rightarrow> None)"
    and "update.priority u =
           (case body.priority b of
              JString s \<Rightarrow> if s \<noteq> [] \<and> s \<in> set allowedPriority then Some s else None
            | _ \<Rightarrow> None)"
    and "update.status u =
           (case body.status b of
              JString s \<Rightarrow> if s \<noteq> [] \<and> s \<in> set allowedStatus then Some s else None
            | _ \<Rightarrow> None)"
    and "update.dueDate u = (if truthy (body.dueDate b) then newDate (body.dueDate b) else None)"
proof -
  show nt: "\<not> toPrimitiveThrows (body.dueDate b)"
    using assms buildUpdate_throws [of b newDate] by auto
  from assms have u: "u =
      \<lparr> update.title = (case body.title b of JString s \<Rightarrow> Some (trim s) | _ \<Rightarrow> None),
        update.description =
          (case body.description b of JString s \<Rightarrow> Some (trim s) | _ \<Rightarrow> None),
        update.priority =
          (case body.priority b of
             JString s \<Rightarrow>
               if truthy (JString s) \<and> arrayIncludes allowedPriority (JString s)
               then Some s else None
           | _ \<Rightarrow> None),
        update.status =
          (case body.status b of
             JString s \<Rightarrow>
               if truthy (JString s) \<and> arrayIncludes allowedStatus (JString s)
               then Some s else None
           | _ \<Rightarrow> None),
        update.dueDate = (if truthy (body.dueDate b) then newDate (body.dueDate b) else None) \<rparr>"
    by (simp add: buildUpdate_def parsedDueDate_returns [OF nt])
  show "update.title u = (case body.title b of JString s \<Rightarrow> Some (trim s) | _ \<Rightarrow> None)"
    by (simp add: u)
  show "update.description u =
           (case body.description b of JString s \<Rightarrow> Some (trim s) | _ \<Rightarrow> None)"
    by (simp add: u)
  show "update.priority u =
           (case body.priority b of
              JString s \<Rightarrow> if s \<noteq> [] \<and> s \<in> set allowedPriority then Some s else None
            | _ \<Rightarrow> None)"
    by (simp add: u split: jsval.splits)
  show "update.status u =
           (case body.status b of
              JString s \<Rightarrow> if s \<noteq> [] \<and> s \<in> set allowedStatus then Some s else None
            | _ \<Rightarrow> None)"
    by (simp add: u split: jsval.splits)
  show "update.dueDate u = (if truthy (body.dueDate b) then newDate (body.dueDate b) else None)"
    by (simp add: u)
qed

section \<open>Creating a task\<close>

text \<open>The title test refuses exactly the values that are no string or trim to nothing.\<close>

lemma titleRejected_iff:
  "titleRejected v \<longleftrightarrow> (case v of JString s \<Rightarrow> trim s = [] | _ \<Rightarrow> True)"
proof (cases v)
  case (JString s)
  have "s = [] \<Longrightarrow> trim s = []" by (simp add: trim_def)
  with JString show ?thesis by (auto simp: titleRejected_def)
qed (simp_all add: titleRejected_def)

text \<open>
  A create request whose title passes the test and whose \<open>dueDate\<close> makes \<open>new Date\<close>
  throw is answered with 500 in both storage modes, and nothing is stored.
\<close>

lemma postTasks_throws:
  assumes "\<not> titleRejected (body.title b)" and "toPrimitiveThrows (body.dueDate b)"
  shows "postTasks newDate now dateNow inMemoryTasks b =
           ((500, ErrorJson ''Failed to create task''), inMemoryTasks)"
    and "postTasksDatabase newDate oid dbNow collection b =
           ((500, ErrorJson ''Failed to create task''), collection)"
  using assms by (simp_all add: postTasks_def postTasksDatabase_def buildPayload_throws)

text \<open>
  C5. A create request whose title is absent, is not a string, or trims to the empty
  string is answered with 400 in both storage modes, and the store (the in-memory array,
  or the collection) is what it was before the request.
\<close>

theorem create_rejects_blank_title:
  assumes "case body.title b of JString s \<Rightarrow> trim s = [] | _ \<Rightarrow> True"
  shows "postTasks newDate now dateNow inMemoryTasks b =
           ((400, ErrorJson ''title is required''), inMemoryTasks) \<and>
         postTasksDatabase newDate oid dbNow collection b =
           ((400, ErrorJson ''title is required''), collection)"
  using assms by (simp add: postTasks_def postTasksDatabase_def titleRejected_iff)

theorem create_rejects_blank_title_witness:
  "postTasks (\<lambda>v. None) 1000 1000 []
     \<lparr> body.title = JString (str ''   ''), description = JString (str ''d''),
       priority = JUndefined, status = JUndefined, dueDate = JUndefined \<rparr> =
     ((400, ErrorJson ''title is required''), []) \<and>
   postTasksDatabase (\<lambda>v. None) (str ''6561'') 1000 []
     \<lparr> body.title = JString (str ''   ''), description = JString (str ''d''),
       priority = JUndefined, status = JUndefined, dueDate = JUndefined \<rparr> =
     ((400, ErrorJson ''title is required''), [])"
  using create_rejects_blank_title
    [of "\<lparr> body.title = JString (str ''   ''), description = JString (str ''d''),
       priority = JUndefined, status = JUndefined, dueDate = JUndefined \<rparr>"
        "\<lambda>v. None" 1000 1000 "[]" "str ''6561''" 1000 "[]"]
  by (simp add: trim_def str_def isWhiteSpace_def)

section \<open>Updating and deleting a task\<close>

lemma findIndex_first:
  "j < nat (findIndex P xs) \<Longrightarrow> \<not> P (xs ! j)"
proof (induction xs arbitrary: j)
  case Nil
  then show ?case by simp
next
  case (Cons x xs)
  show ?case
  proof (cases "P x")
    case True
    with Cons.prems show ?thesis by simp
  next
    case False
    show ?thesis
    proof (cases j)
      case 0
      with False show ?thesis by simp
    next
      case (Suc k)
      have ge: "- 1 \<le> findIndex P xs" by (rule findIndex_ge)
      from Cons.prems False Suc ge have "k < nat (findIndex P xs)"
        by (auto simp: Let_def split: if_splits)
      from Cons.IH [OF this] Suc show ?thesis by simp
    qed
  qed
qed

text \<open>
  The update handler builds \<open>update\<close> before it looks the task up, so an exception of the
  \<open>dueDate\<close> step is answered with 500 whatever the id.
\<close>

lemma patchTask_throws:
  "toPrimitiveThrows (body.dueDate b) \<Longrightarrow>
     patchTask newDate s ident b = ((500, ErrorJson ''Failed to update task''), s)"
  by (simp add: patchTask_def buildUpdate_throws)

lemma patchTask_missing:
  "\<not> toPrimitiveThrows (body.dueDate b) \<Longrightarrow> \<forall>t\<in>set s. id t \<noteq> ident \<Longrightarrow>
     patchTask newDate s ident b = ((404, ErrorJson ''Task not found''), s)"
  using buildUpdate_returns [of b newDate]
  by (auto simp: patchTask_def Let_def findIndex_none)

lemma deleteTask_missing:
  "\<forall>t\<in>set s. id t \<noteq> ident \<Longrightarrow> deleteTask s ident = ((404, ErrorJson ''Task not found''), s)"
  by (simp add: deleteTask_def Let_def findIndex_none)

lemma patchTask_found:
  "buildUpdate newDate b = Inr u \<Longrightarrow> findIndex (\<lambda>task. id task = ident) s \<noteq> - 1 \<Longrightarrow>
     patchTask newDate s ident b =
       ((200, TaskJson (spread (s ! nat (findIndex (\<lambda>task. id task = ident) s)) u)),
        s[nat (findIndex (\<lambda>task. id task = ident) s) :=
            spread (s ! nat (findIndex (\<lambda>task. id task = ident) s)) u])"
  by (simp add: patchTask_def Let_def)

lemma deleteTask_found:
  "findIndex (\<lambda>task. id task = ident) s \<noteq> - 1 \<Longrightarrow>
     deleteTask s ident = ((204, NoBody), splice1 (nat (findIndex (\<lambda>task. id task = ident) s)) s)"
  by (simp add: deleteTask_def Let_def)

lemma getTasks_filter:
  "getTasks s q =
     (200, TasksJson (filter (\<lambda>task.
        (truthy (query.status q) \<longrightarrow> JString (status task) = query.status q) \<and>
        (truthy (query.priority q) \<longrightarrow> JString (priority task) = query.priority q)) s))"
  by (auto simp: getTasks_def Let_def intro: filter_cong)

lemma blank_not_allowed: "[] \<notin> set allowedPriority" "[] \<notin> set allowedStatus"
  by (simp_all add: allowedPriority_def allowedStatus_def str_def)

text \<open>
  What an update does when the \<open>dueDate\<close> step returns and the id resolves: it answers
  200 and replaces the first task with that id. \<open>id\<close> and \<open>createdAt\<close> keep their values;
  \<open>title\<close> and \<open>description\<close> become the trimmed string when the body gives a string, be
  it blank; \<open>priority\<close> and \<open>status\<close> change only when the body gives a member of the
  enumerated set; \<open>dueDate\<close> changes only when the body gives a value that parses.
\<close>

lemma patchTask_frame:
  assumes "\<exists>t\<in>set s. id t = ident" and "\<not> toPrimitiveThrows (body.dueDate b)"
  shows "\<exists>i current updated.
      i < length s \<and> current = s ! i \<and> id current = ident \<and> (\<forall>j<i. id (s ! j) \<noteq> ident) \<and>
      patchTask newDate s ident b = ((200, TaskJson updated), s[i := updated]) \<and>
      id updated = id current \<and>
      createdAt updated = createdAt current \<and>
      title updated = (case body.title b of JString v \<Rightarrow> trim v | _ \<Rightarrow> title current) \<and>
      description updated =
        (case body.description b of JString v \<Rightarrow> trim v | _ \<Rightarrow> description current) \<and>
      priority updated =
        (case body.priority b of
           JString v \<Rightarrow> if v \<in> set allowedPriority then v else priority current
         | _ \<Rightarrow> priority current) \<and>
      status updated =
        (case body.status b of
           JString v \<Rightarrow> if v \<in> set allowedStatus then v else status current
         | _ \<Rightarrow> status current) \<and>
      dueDate updated =
        (if truthy (body.dueDate b) \<and> newDate (body.dueDate b) \<noteq> None
         then newDate (body.dueDate b) else dueDate current)"
proof -
  let ?P = "\<lambda>task. id task = ident"
  let ?i = "nat (findIndex ?P s)"
  from buildUpdate_returns [OF assms(2), of newDate]
  obtain u where u: "buildUpdate newDate b = Inr u" ..
  note fields = buildUpdate_Inr_fields [OF u]
  let ?u = "spread (s ! ?i) u"
  from assms(1) have ne: "findIndex ?P s \<noteq> - 1" by (simp add: findIndex_none)
  from findIndex_found [OF ne] have len: "?i < length s" and idc: "id (s ! ?i) = ident"
    by simp_all
  have first: "\<forall>j<?i. id (s ! j) \<noteq> ident"
    using findIndex_first [of _ ?P s] by blast
  have res: "patchTask newDate s ident b = ((200, TaskJson ?u), s[?i := ?u])"
    using u ne by (rule patchTask_found)
  have f1: "id ?u = id (s ! ?i)" "createdAt ?u = createdAt (s ! ?i)"
    by (simp_all add: spread_def)
  have f2: "title ?u = (case body.title b of JString v \<Rightarrow> trim v | _ \<Rightarrow> title (s ! ?i))"
    by (simp add: spread_def fields(2) split: jsval.splits)
  have f3: "description ?u =
        (case body.description b of JString v \<Rightarrow> trim v | _ \<Rightarrow> description (s ! ?i))"
    by (simp add: spread_def fields(3) split: jsval.splits)
  have f4: "priority ?u =
        (case body.priority b of
           JString v \<Rightarrow> if v \<in> set allowedPriority then v else priority (s ! ?i)
         | _ \<Rightarrow> priority (s ! ?i))"
    using blank_not_allowed(1) by (auto simp: spread_def fields(4) split: jsval.splits)
  have f5: "status ?u =
        (case body.status b of
           JString v \<Rightarrow> if v \<in> set allowedStatus then v else status (s ! ?i)
         | _ \<Rightarrow> status (s ! ?i))"
    using blank_not_allowed(2) by (auto simp: spread_def fields(5) split: jsval.splits)
  have f6: "dueDate ?u =
        (if truthy (body.dueDate b) \<and> newDate (body.dueDate b) \<noteq> None
         then newDate (body.dueDate b) else dueDate (s ! ?i))"
    by (auto simp: spread_def fields(6) split: option.splits)
  from len idc first res f1 f2 f3 f4 f5 f6 show ?thesis by blast
qed

text \<open>
  C3. Two updates of a stored task whose body has no valid field. The body whose only
  property is a \<open>dueDate\<close> object with own \<open>valueOf\<close> and \<open>toString\<close> makes \<open>new Date\<close>
  throw: the update is answered with 500, not with the unchanged record. The body whose
  only property is the title of three spaces is answered with 200 and a changed record,
  the title now empty.
\<close>

theorem update_without_valid_field:
  "patchTask newDate
     [\<lparr> id = str ''1000'', title = str ''a'', description = [], priority = str ''high'',
         status = str ''todo'', dueDate = None, createdAt = 1000 \<rparr>]
     (str ''1000'')
     \<lparr> body.title = JUndefined, description = JUndefined, priority = JUndefined,
       status = JUndefined,
       dueDate = JObject [(str ''valueOf'', JNumber (Finite 1)),
                          (str ''toString'', JNumber (Finite 1))] \<rparr> =
   ((500, ErrorJson ''Failed to update task''),
    [\<lparr> id = str ''1000'', title = str ''a'', description = [], priority = str ''high'',
        status = str ''todo'', dueDate = None, createdAt = 1000 \<rparr>]) \<and>
   patchTask newDate
     [\<lparr> id = str ''1000'', title = str ''a'', description = [], priority = str ''high'',
         status = str ''todo'', dueDate = None, createdAt = 1000 \<rparr>]
     (str ''1000'')
     \<lparr> body.title = JString (str ''   ''), description = JUndefined, priority = JUndefined,
       status = JUndefined, dueDate = JUndefined \<rparr> =
   ((200, TaskJson \<lparr> id = str ''1000'', title = [], description = [], priority = str ''high'',
                     status = str ''todo'', dueDate = None, createdAt = 1000 \<rparr>),
    [\<lparr> id = str ''1000'', title = [], description = [], priority = str ''high'',
        status = str ''todo'', dueDate = None, createdAt = 1000 \<rparr>])"
proof -
  have thrown: "patchTask newDate
     [\<lparr> id = str ''1000'', title = str ''a'', description = [], priority = str ''high'',
         status = str ''todo'', dueDate = None, createdAt = 1000 \<rparr>]
     (str ''1000'')
     \<lparr> body.title = JUndefined, description = JUndefined, priority = JUndefined,
       status = JUndefined,
       dueDate = JObject [(str ''valueOf'', JNumber (Finite 1)),
                          (str ''toString'', JNumber (Finite 1))] \<rparr> =
   ((500, ErrorJson ''Failed to update task''),
    [\<lparr> id = str ''1000'', title = str ''a'', description = [], priority = str ''high'',
        status = str ''todo'', dueDate = None, createdAt = 1000 \<rparr>])"
    by (rule patchTask_throws) simp
  have "trim (str ''   '') = []"
    by (simp add: trim_def str_def isWhiteSpace_def)
  then have blank: "patchTask newDate
     [\<lparr> id = str ''1000'', title = str ''a'', description = [], priority = str ''high'',
         status = str ''todo'', dueDate = None, createdAt = 1000 \<rparr>]
     (str ''1000'')
     \<lparr> body.title = JString (str ''   ''), description = JUndefined, priority = JUndefined,
       status = JUndefined, dueDate = JUndefined \<rparr> =
   ((200, TaskJson \<lparr> id = str ''1000'', title = [], description = [], priority = str ''high'',
                     status = str ''todo'', dueDate = None, createdAt = 1000 \<rparr>),
    [\<lparr> id = str ''1000'', title = [], description = [], priority = str ''high'',
        status = str ''todo'', dueDate = None, createdAt = 1000 \<rparr>])"
    by (simp add: patchTask_def buildUpdate_def parsedDueDate_def spread_def Let_def)
  from thrown blank show ?thesis ..
qed

text \<open>
  A delete whose id belongs to no stored task is answered with 404, which is neither 400
  nor 500, and a list after it holds no task with that id. So is an update whose
  \<open>dueDate\<close> step returns.
\<close>

lemma unknown_id_not_found:
  assumes "\<forall>t\<in>set s. id t \<noteq> ident"
  shows "(\<not> toPrimitiveThrows (body.dueDate b) \<longrightarrow>
            fst (patchTask newDate s ident b) = (404, ErrorJson ''Task not found'')) \<and>
         fst (deleteTask s ident) = (404, ErrorJson ''Task not found'') \<and>
         fst (fst (deleteTask s ident)) \<notin> {400, 500} \<and>
         (\<exists>ts. getTasks (snd (deleteTask s ident)) q = (200, TasksJson ts) \<and>
               ident \<notin> id ` set ts)"
proof -
  from assms have d: "deleteTask s ident = ((404, ErrorJson ''Task not found''), s)"
    by (rule deleteTask_missing)
  have "ident \<notin> id ` set (filter (\<lambda>task.
        (truthy (query.status q) \<longrightarrow> JString (status task) = query.status q) \<and>
        (truthy (query.priority q) \<longrightarrow> JString (priority task) = query.priority q)) s)"
    using assms by auto
  then have "\<exists>ts. getTasks s q = (200, TasksJson ts) \<and> ident \<notin> id ` set ts"
    unfolding getTasks_filter by blast
  with d patchTask_missing [OF _ assms, of b newDate] show ?thesis by simp
qed

text \<open>
  C7. An update whose id belongs to no stored task is answered with 500, not with 404,
  when its \<open>dueDate\<close> is an object with own \<open>valueOf\<close> and \<open>toString\<close>: \<open>new Date\<close> throws
  before the task is looked up.
\<close>

theorem update_unknown_id_throwing_dueDate:
  "findIndex (\<lambda>task. id task = str ''2000'')
     [\<lparr> id = str ''1000'', title = str ''a'', description = [], priority = str ''high'',
         status = str ''todo'', dueDate = None, createdAt = 1000 \<rparr>] = - 1 \<and>
   patchTask newDate
     [\<lparr> id = str ''1000'', title = str ''a'', description = [], priority = str ''high'',
         status = str ''todo'', dueDate = None, createdAt = 1000 \<rparr>]
     (str ''2000'')
     \<lparr> body.title = JUndefined, description = JUndefined, priority = JUndefined,
       status = JUndefined,
       dueDate = JObject [(str ''valueOf'', JNumber (Finite 1)),
                          (str ''toString'', JNumber (Finite 1))] \<rparr> =
   ((500, ErrorJson ''Failed to update task''),
    [\<lparr> id = str ''1000'', title = str ''a'', description = [], priority = str ''high'',
        status = str ''todo'', dueDate = None, createdAt = 1000 \<rparr>])"
proof -
  have "str ''1000'' \<noteq> str ''2000''" by (simp add: str_def)
  then have unknown: "findIndex (\<lambda>task. id task = str ''2000'')
     [\<lparr> id = str ''1000'', title = str ''a'', description = [], priority = str ''high'',
         status = str ''todo'', dueDate = None, createdAt = 1000 \<rparr>] = - 1"
    by simp
  have thrown: "patchTask newDate
     [\<lparr> id = str ''1000'', title = str ''a'', description = [], priority = str ''high'',
         status = str ''todo'', dueDate = None, createdAt = 1000 \<rparr>]
     (str ''2000'')
     \<lparr> body.title = JUndefined, description = JUndefined, priority = JUndefined,
       status = JUndefined,
       dueDate = JObject [(str ''valueOf'', JNumber (Finite 1)),
                          (str ''toString'', JNumber (Finite 1))] \<rparr> =
   ((500, ErrorJson ''Failed to update task''),
    [\<lparr> id = str ''1000'', title = str ''a'', description = [], priority = str ''high'',
        status = str ''todo'', dueDate = None, createdAt = 1000 \<rparr>])"
    by (rule patchTask_throws) simp
  from unknown thrown show ?thesis ..
qed

text \<open>
  C10. An update or a delete that answers 404 leaves the array as it was.
\<close>

theorem not_found_leaves_store:
  "(fst (fst (patchTask newDate s ident b)) = 404 \<longrightarrow> snd (patchTask newDate s ident b) = s) \<and>
   (fst (fst (deleteTask s ident)) = 404 \<longrightarrow> snd (deleteTask s ident) = s)"
  by (simp add: patchTask_def deleteTask_def Let_def split: sum.splits)

theorem not_found_leaves_store_witness:
  "fst (fst (patchTask (\<lambda>v. None)
          [\<lparr> id = str ''1000'', title = str ''a'', description = [], priority = str ''high'',
              status = str ''todo'', dueDate = None, createdAt = 1000 \<rparr>]
          (str ''2000'')
          \<lparr> body.title = JString (str ''b''), description = JUndefined, priority = JUndefined,
            status = JUndefined, dueDate = JUndefined \<rparr>)) = 404 \<and>
   snd (patchTask (\<lambda>v. None)
          [\<lparr> id = str ''1000'', title = str ''a'', description = [], priority = str ''high'',
              status = str ''todo'', dueDate = None, createdAt = 1000 \<rparr>]
          (str ''2000'')
          \<lparr> body.title = JString (str ''b''), description = JUndefined, priority = JUndefined,
            status = JUndefined, dueDate = JUndefined \<rparr>) =
     [\<lparr> id = str ''1000'', title = str ''a'', description = [], priority = str ''high'',
        status = str ''todo'', dueDate = None, createdAt = 1000 \<rparr>] \<and>
   fst (fst (deleteTask
          [\<lparr> id = str ''1000'', title = str ''a'', description = [], priority = str ''high'',
              status = str ''todo'', dueDate = None, createdAt = 1000 \<rparr>]
          (str ''2000''))) = 404 \<and>
   snd (deleteTask
          [\<lparr> id = str ''1000'', title = str ''a'', description = [], priority = str ''high'',
              status = str ''todo'', dueDate = None, createdAt = 1000 \<rparr>]
          (str ''2000'')) =
     [\<lparr> id = str ''1000'', title = str ''a'', description = [], priority = str ''high'',
        status = str ''todo'', dueDate = None, createdAt = 1000 \<rparr>]"
proof -
  have p: "fst (fst (patchTask (\<lambda>v. None)
          [\<lparr> id = str ''1000'', title = str ''a'', description = [], priority = str ''high'',
              status = str ''todo'', dueDate = None, createdAt = 1000 \<rparr>]
          (str ''2000'')
          \<lparr> body.title = JString (str ''b''), description = JUndefined, priority = JUndefined,
            status = JUndefined, dueDate = JUndefined \<rparr>)) = 404"
    by (simp add: patchTask_def buildUpdate_def parsedDueDate_def Let_def str_def)
  have d: "fst (fst (deleteTask
          [\<lparr> id = str ''1000'', title = str ''a'', description = [], priority = str ''high'',
              status = str ''todo'', dueDate = None, createdAt = 1000 \<rparr>]
          (str ''2000''))) = 404"
    by (simp add: deleteTask_def Let_def str_def)
  from p d not_found_leaves_store
    [where s = "[\<lparr> id = str ''1000'', title = str ''a'', description = [], priority = str ''high'',
                    status = str ''todo'', dueDate = None, createdAt = 1000 \<rparr>]"
       and ident = "str ''2000''" and newDate = "\<lambda>v. None"
       and b = "\<lparr> body.title = JString (str ''b''), description = JUndefined, priority = JUndefined,
                 status = JUndefined, dueDate = JUndefined \<rparr>"]
  show ?thesis by blast
qed

section \<open>Defaults of a created task\<close>

lemma trim_a: "trim (str ''a'') = str ''a''" "trim (str ''b'') = str ''b''" "trim (str ''   '') = []"
  by (simp_all add: trim_def str_def isWhiteSpace_def)

lemma str_nonempty: "str ''a'' \<noteq> []" "str ''b'' \<noteq> []"
  by (simp_all add: str_def)

text \<open>
  In memory, a create request that gives only a title yields the task with priority
  \<open>medium\<close>, status \<open>todo\<close>, the empty description and the \<open>null\<close> due date.
\<close>

lemma postTasks_title_only:
  assumes "body.title b = JString v" and "trim v \<noteq> []"
    and "body.description b = JUndefined" and "body.priority b = JUndefined"
    and "body.status b = JUndefined" and "body.dueDate b = JUndefined"
  shows "postTasks newDate now dateNow s b =
           ((201, TaskJson \<lparr> id = toString dateNow, title = trim v, description = [],
                               priority = str ''medium'', status = str ''todo'',
                               dueDate = None, createdAt = now \<rparr>),
            \<lparr> id = toString dateNow, title = trim v, description = [],
              priority = str ''medium'', status = str ''todo'',
              dueDate = None, createdAt = now \<rparr> # s)"
  using assms
  by (simp add: postTasks_def titleRejected_iff buildPayload_def orElse_def parsedDueDate_def
      Let_def)

text \<open>
  C2. With the database, the create request whose body is only the title \<open>a\<close> is answered
  with 201 and a record whose priority is \<open>medium\<close> and whose status is \<open>todo\<close>, but
  whose \<open>description\<close> and \<open>dueDate\<close> are \<open>undefined\<close>: the schema gives them no default,
  so the record sent has neither the empty string nor \<open>null\<close> there, and the stored
  document has no value for them.
\<close>

theorem create_title_only_database:
  "postTasksDatabase newDate oid dbNow collection
     \<lparr> body.title = JString (str ''a''), description = JUndefined, priority = JUndefined,
       status = JUndefined, dueDate = JUndefined \<rparr> =
   ((201, DocJson \<lparr> docJson.id = oid, title = str ''a'', description = None,
                    priority = str ''medium'', status = str ''todo'', dueDate = None,
                    createdAt = dbNow \<rparr>),
    collection @ [\<lparr> objectId = oid, title = str ''a'', description = None,
                    priority = str ''medium'', status = str ''todo'', dueDate = None,
                    createdAt = dbNow, updatedAt = dbNow \<rparr>])"
  by (simp add: postTasksDatabase_def titleRejected_iff taskCreate_def buildPayload_def
      parsedDueDate_def trim_a str_nonempty Let_def)

section \<open>Titles\<close>

text \<open>A task the create handler accepts has the trimmed title, which is not empty.\<close>

lemma postTasks_accepted_title:
  assumes "postTasks newDate now dateNow s b = ((201, TaskJson t), s')"
  shows "title t \<noteq> [] \<and> (\<exists>v. body.title b = JString v \<and> title t = trim v) \<and> s' = t # s"
proof (cases "titleRejected (body.title b)")
  case True
  with assms show ?thesis by (simp add: postTasks_def)
next
  case False
  then obtain v where v: "body.title b = JString v" "trim v \<noteq> []"
    by (cases "body.title b") (simp_all add: titleRejected_iff)
  show ?thesis
  proof (cases "buildPayload newDate b")
    case (Inl e)
    with assms False show ?thesis by (simp add: postTasks_def)
  next
    case (Inr p)
    from assms False Inr have "t = \<lparr> id = toString dateNow,
                      title = payload.title p,
                      description = orElse (payload.description p) [],
                      priority = orElse (payload.priority p) (str ''medium''),
                      status = orElse (payload.status p) (str ''todo''),
                      dueDate = payload.dueDate p,
                      createdAt = now \<rparr>" and s': "s' = t # s"
      by (auto simp: postTasks_def Let_def)
    then have "title t = trim v" using v buildPayload_Inr_fields(2) [OF Inr] by simp
    with v s' show ?thesis by simp
  qed
qed

text \<open>
  C1. The update handler takes any string as a title: after the task with title \<open>a\<close> is
  created, an update of that task whose title is three spaces is answered with 200 and
  leaves the stored task with the empty title.
\<close>

theorem update_stores_blank_title:
  "postTasks newDate 1000 1000 []
     \<lparr> body.title = JString (str ''a''), description = JUndefined, priority = JUndefined,
       status = JUndefined, dueDate = JUndefined \<rparr> =
   ((201, TaskJson \<lparr> id = toString 1000, title = str ''a'', description = [],
                     priority = str ''medium'', status = str ''todo'', dueDate = None,
                     createdAt = 1000 \<rparr>),
    [\<lparr> id = toString 1000, title = str ''a'', description = [],
       priority = str ''medium'', status = str ''todo'', dueDate = None,
       createdAt = 1000 \<rparr>]) \<and>
   patchTask newDate
     [\<lparr> id = toString 1000, title = str ''a'', description = [],
        priority = str ''medium'', status = str ''todo'', dueDate = None,
        createdAt = 1000 \<rparr>]
     (toString 1000)
     \<lparr> body.title = JString (str ''   ''), description = JUndefined, priority = JUndefined,
       status = JUndefined, dueDate = JUndefined \<rparr> =
   ((200, TaskJson \<lparr> id = toString 1000, title = [], description = [],
                     priority = str ''medium'', status = str ''todo'', dueDate = None,
                     createdAt = 1000 \<rparr>),
    [\<lparr> id = toString 1000, title = [], description = [],
       priority = str ''medium'', status = str ''todo'', dueDate = None,
       createdAt = 1000 \<rparr>])"
  by (simp add: postTasks_title_only trim_a str_nonempty patchTask_def spread_def buildUpdate_def
      parsedDueDate_def Let_def)

section \<open>Identifiers of the in-memory store\<close>

text \<open>
  C4. The in-memory identifier is the decimal numeral of \<open>Date.now()\<close>: two create
  requests served within one millisecond leave two tasks with the same \<open>id\<close> in the
  array.
\<close>

theorem same_millisecond_same_id:
  "run newDate
     [Post 1000 1000 \<lparr> body.title = JString (str ''a''), description = JUndefined,
                       priority = JUndefined, status = JUndefined, dueDate = JUndefined \<rparr>,
      Post 1000 1000 \<lparr> body.title = JString (str ''b''), description = JUndefined,
                       priority = JUndefined, status = JUndefined, dueDate = JUndefined \<rparr>] =
   [\<lparr> id = toString 1000, title = str ''b'', description = [],
      priority = str ''medium'', status = str ''todo'', dueDate = None, createdAt = 1000 \<rparr>,
    \<lparr> id = toString 1000, title = str ''a'', description = [],
      priority = str ''medium'', status = str ''todo'', dueDate = None, createdAt = 1000 \<rparr>] \<and>
   \<not> distinct (map id (run newDate
     [Post 1000 1000 \<lparr> body.title = JString (str ''a''), description = JUndefined,
                       priority = JUndefined, status = JUndefined, dueDate = JUndefined \<rparr>,
      Post 1000 1000 \<lparr> body.title = JString (str ''b''), description = JUndefined,
                       priority = JUndefined, status = JUndefined, dueDate = JUndefined \<rparr>]))"
  by (simp add: run_def postTasks_title_only trim_a str_nonempty)

section \<open>Listing tasks\<close>

text \<open>
  The array keeps the order of arrival: a create puts the new task first, an update
  keeps every \<open>createdAt\<close> where it is, a delete takes one task out. So the array is
  ordered by \<open>createdAt\<close>, newest first, as long as no create reads a clock value below
  that of an earlier create; the handler itself never sorts it.
\<close>

lemma newestFirst_map: "newestFirst ts \<longleftrightarrow> sorted_wrt (\<lambda>x y. y \<le> x) (map createdAt ts)"
  by (simp add: newestFirst_def sorted_wrt_map)

lemma createdAt_spread: "createdAt (spread c u) = createdAt c"
  by (simp add: spread_def)

lemma map_update_same:
  "i < length xs \<Longrightarrow> f y = f (xs ! i) \<Longrightarrow> map f (xs[i := y]) = map f xs"
  by (induction xs arbitrary: i) (auto split: nat.splits)

lemma patchTask_cases:
  "snd (patchTask newDate s ident b) = s \<or>
   (\<exists>u. buildUpdate newDate b = Inr u \<and> findIndex (\<lambda>task. id task = ident) s \<noteq> - 1 \<and>
        snd (patchTask newDate s ident b) =
          s[nat (findIndex (\<lambda>task. id task = ident) s) :=
              spread (s ! nat (findIndex (\<lambda>task. id task = ident) s)) u])"
proof (cases "buildUpdate newDate b")
  case (Inl e)
  then show ?thesis by (simp add: patchTask_def)
next
  case (Inr u)
  show ?thesis
  proof (cases "findIndex (\<lambda>task. id task = ident) s = - 1")
    case True
    with Inr show ?thesis by (simp add: patchTask_def Let_def)
  next
    case False
    with Inr show ?thesis by (simp add: patchTask_found)
  qed
qed

lemma postTasks_cases:
  "(titleRejected (body.title b) \<or> toPrimitiveThrows (body.dueDate b)) \<and>
     snd (postTasks newDate now dateNow s b) = s \<or>
   \<not> titleRejected (body.title b) \<and> \<not> toPrimitiveThrows (body.dueDate b) \<and>
     (\<exists>p. buildPayload newDate b = Inr p \<and>
          snd (postTasks newDate now dateNow s b) =
            \<lparr> id = toString dateNow,
              title = payload.title p,
              description = orElse (payload.description p) [],
              priority = orElse (payload.priority p) (str ''medium''),
              status = orElse (payload.status p) (str ''todo''),
              dueDate = payload.dueDate p,
              createdAt = now \<rparr> # s)"
proof (cases "titleRejected (body.title b)")
  case True
  then show ?thesis by (simp add: postTasks_def)
next
  case False
  show ?thesis
  proof (cases "buildPayload newDate b")
    case (Inl e)
    with buildPayload_returns [of b newDate] have "toPrimitiveThrows (body.dueDate b)" by auto
    with Inl False show ?thesis by (simp add: postTasks_def)
  next
    case (Inr p)
    with False buildPayload_Inr_fields(1) [OF Inr] show ?thesis
      by (simp add: postTasks_def Let_def)
  qed
qed

lemma patchTask_createdAt:
  "map createdAt (snd (patchTask newDate s ident b)) = map createdAt s"
proof -
  from patchTask_cases [of newDate s ident b] show ?thesis
  proof
    assume "snd (patchTask newDate s ident b) = s"
    then show ?thesis by simp
  next
    assume "\<exists>u. buildUpdate newDate b = Inr u \<and> findIndex (\<lambda>task. id task = ident) s \<noteq> - 1 \<and>
        snd (patchTask newDate s ident b) =
          s[nat (findIndex (\<lambda>task. id task = ident) s) :=
              spread (s ! nat (findIndex (\<lambda>task. id task = ident) s)) u]"
    then obtain u where ne: "findIndex (\<lambda>task. id task = ident) s \<noteq> - 1"
      and eq: "snd (patchTask newDate s ident b) =
          s[nat (findIndex (\<lambda>task. id task = ident) s) :=
              spread (s ! nat (findIndex (\<lambda>task. id task = ident) s)) u]" by blast
    from findIndex_found [OF ne]
    have len: "nat (findIndex (\<lambda>task. id task = ident) s) < length s" by simp
    from len show ?thesis
      by (simp only: eq map_update_same createdAt_spread)
  qed
qed

lemma sorted_wrt_splice1:
  "sorted_wrt P xs \<Longrightarrow> sorted_wrt P (splice1 i xs)"
proof -
  assume s: "sorted_wrt P xs"
  have "sorted_wrt P (take i xs @ drop i xs)" using s by simp
  then have a: "sorted_wrt P (take i xs)" and b: "sorted_wrt P (drop i xs)"
    and c: "\<forall>x\<in>set (take i xs). \<forall>y\<in>set (drop i xs). P x y"
    unfolding sorted_wrt_append by blast+
  have sub: "set (drop (Suc i) xs) \<subseteq> set (drop i xs)"
    by (rule set_drop_subset_set_drop) simp
  have "sorted_wrt P (drop (Suc i) xs)" using s by (rule sorted_wrt_drop)
  with a c sub show ?thesis
    unfolding splice1_def sorted_wrt_append by blast
qed

lemma set_splice1: "set (splice1 i xs) \<subseteq> set xs"
  unfolding splice1_def using set_take_subset [of i xs] set_drop_subset [of "Suc i" xs] by auto

lemma deleteTask_cases:
  "snd (deleteTask s ident) = s \<or> (\<exists>i. snd (deleteTask s ident) = splice1 i s)"
  by (auto simp: deleteTask_def Let_def)

lemma handle_newestFirst:
  assumes "newestFirst s" and "\<forall>t\<in>set s. createdAt t \<le> lb"
    and "sorted (lb # createTimes [r])"
  shows "newestFirst (handle newDate s r) \<and>
         (\<forall>t\<in>set (handle newDate s r). createdAt t \<le> last (lb # createTimes [r]))"
proof (cases r)
  case (Post now dateNow b)
  from postTasks_cases [of b newDate now dateNow s] show ?thesis
  proof
    assume "(titleRejected (body.title b) \<or> toPrimitiveThrows (body.dueDate b)) \<and>
      snd (postTasks newDate now dateNow s b) = s"
    with Post assms show ?thesis by auto
  next
    assume a: "\<not> titleRejected (body.title b) \<and> \<not> toPrimitiveThrows (body.dueDate b) \<and>
     (\<exists>p. buildPayload newDate b = Inr p \<and>
          snd (postTasks newDate now dateNow s b) =
            \<lparr> id = toString dateNow,
              title = payload.title p,
              description = orElse (payload.description p) [],
              priority = orElse (payload.priority p) (str ''medium''),
              status = orElse (payload.status p) (str ''todo''),
              dueDate = payload.dueDate p,
              createdAt = now \<rparr> # s)"
    with Post assms(3) have le: "lb \<le> now" by simp
    from a Post obtain t where h: "handle newDate s r = t # s" and c: "createdAt t = now"
      by auto
    from assms(2) le have "\<forall>x\<in>set s. createdAt x \<le> now" by fastforce
    with h c assms(1) a Post show ?thesis
      by (simp add: newestFirst_def)
  qed
next
  case (Patch ident b)
  have m: "map createdAt (handle newDate s r) = map createdAt s"
    using Patch by (simp add: patchTask_createdAt)
  have "\<forall>t\<in>set (handle newDate s r). createdAt t \<le> lb"
  proof
    fix t
    assume "t \<in> set (handle newDate s r)"
    then have "createdAt t \<in> set (map createdAt (handle newDate s r))" by simp
    then have "createdAt t \<in> set (map createdAt s)" by (simp only: m)
    then obtain t' where "t' \<in> set s" and "createdAt t' = createdAt t" by auto
    with assms(2) show "createdAt t \<le> lb" by fastforce
  qed
  with m assms(1) Patch show ?thesis by (simp add: newestFirst_map)
next
  case (Delete ident)
  from deleteTask_cases [of s ident] Delete
  have "handle newDate s r = s \<or> (\<exists>i. handle newDate s r = splice1 i s)" by simp
  then have n: "newestFirst (handle newDate s r)" and sub: "set (handle newDate s r) \<subseteq> set s"
  proof -
    assume "handle newDate s r = s \<or> (\<exists>i. handle newDate s r = splice1 i s)"
    then show "newestFirst (handle newDate s r)"
      using assms(1) by (auto simp: newestFirst_def intro: sorted_wrt_splice1)
  next
    assume "handle newDate s r = s \<or> (\<exists>i. handle newDate s r = splice1 i s)"
    then show "set (handle newDate s r) \<subseteq> set s"
    proof
      assume "handle newDate s r = s"
      then show ?thesis by simp
    next
      assume "\<exists>i. handle newDate s r = splice1 i s"
      then obtain i where "handle newDate s r = splice1 i s" ..
      then show ?thesis by (simp add: set_splice1)
    qed
  qed
  from sub assms(2) have "\<forall>t\<in>set (handle newDate s r). createdAt t \<le> lb" by blast
  with n Delete show ?thesis by simp
qed

lemma createTimes_Cons:
  "createTimes (r # rs) = createTimes [r] @ createTimes rs"
  by (cases r) simp_all

lemma foldl_handle_newestFirst:
  "newestFirst s \<Longrightarrow> \<forall>t\<in>set s. createdAt t \<le> lb \<Longrightarrow> sorted (lb # createTimes reqs) \<Longrightarrow>
     newestFirst (foldl (handle newDate) s reqs)"
proof (induction reqs arbitrary: s lb)
  case Nil
  then show ?case by simp
next
  case (Cons r rs)
  let ?lb = "last (lb # createTimes [r])"
  from Cons.prems(3) have srt: "sorted (lb # createTimes [r] @ createTimes rs)"
    by (simp only: createTimes_Cons [of r rs])
  then have one: "sorted (lb # createTimes [r])"
    by (simp add: sorted_append)
  from handle_newestFirst [OF Cons.prems(1) Cons.prems(2) one, of newDate]
  have n: "newestFirst (handle newDate s r)"
    and b: "\<forall>t\<in>set (handle newDate s r). createdAt t \<le> ?lb" by simp_all
  from srt have "sorted (?lb # createTimes rs)"
    by (cases r) (auto simp: sorted_append split: if_splits)
  from Cons.IH [OF n b this] show ?case by simp
qed

lemma run_newestFirst: "sorted (createTimes reqs) \<Longrightarrow> newestFirst (run newDate reqs)"
proof -
  assume s: "sorted (createTimes reqs)"
  show ?thesis
  proof (cases "createTimes reqs")
    case Nil
    then have "sorted (0 # createTimes reqs)" by simp
    from foldl_handle_newestFirst [of "[]" 0 reqs newDate, OF _ _ this] show ?thesis
      by (simp add: run_def newestFirst_def)
  next
    case (Cons x xs)
    with s have "sorted (x # createTimes reqs)" by simp
    from foldl_handle_newestFirst [of "[]" x reqs newDate, OF _ _ this] show ?thesis
      by (simp add: run_def newestFirst_def)
  qed
qed

lemma newestFirst_filter: "newestFirst ts \<Longrightarrow> newestFirst (filter P ts)"
  by (simp add: newestFirst_def sorted_wrt_filter)

text \<open>
  A list call after any run of requests returns exactly the stored tasks that match the
  filter, in the order of the array: a truthy \<open>status\<close> parameter keeps the tasks with
  that status, a truthy \<open>priority\<close> parameter those with that priority, both together
  the tasks that pass both, and no parameter keeps all. The sequence is ordered by
  \<open>createdAt\<close> descending whenever the clock readings of the creates that store a task
  never decrease.
\<close>

lemma getTasks_run:
  "getTasks (run newDate reqs) q =
     (200, TasksJson (filter (\<lambda>task.
        (truthy (query.status q) \<longrightarrow> JString (status task) = query.status q) \<and>
        (truthy (query.priority q) \<longrightarrow> JString (priority task) = query.priority q))
        (run newDate reqs))) \<and>
   (sorted (createTimes reqs) \<longrightarrow>
      newestFirst (filter (\<lambda>task.
        (truthy (query.status q) \<longrightarrow> JString (status task) = query.status q) \<and>
        (truthy (query.priority q) \<longrightarrow> JString (priority task) = query.priority q))
        (run newDate reqs)))"
  using run_newestFirst [of reqs newDate]
  by (simp add: getTasks_filter newestFirst_filter)

text \<open>
  C6. The in-memory list is the array as it stands and is never sorted: when the clock
  steps back between two creates, from 2000 to 1000, the list without a filter returns
  the task created second first, although its \<open>createdAt\<close> is the earlier one, so the
  sequence is not ordered by \<open>createdAt\<close> descending.
\<close>

theorem list_order_after_clock_step:
  "getTasks
     (run newDate
        [Post 2000 2000 \<lparr> body.title = JString (str ''a''), description = JUndefined,
                          priority = JUndefined, status = JUndefined, dueDate = JUndefined \<rparr>,
         Post 1000 1000 \<lparr> body.title = JString (str ''b''), description = JUndefined,
                          priority = JUndefined, status = JUndefined, dueDate = JUndefined \<rparr>])
     \<lparr> query.status = JUndefined, priority = JUndefined \<rparr> =
   (200, TasksJson
      [\<lparr> id = toString 1000, title = str ''b'', description = [], priority = str ''medium'',
          status = str ''todo'', dueDate = None, createdAt = 1000 \<rparr>,
       \<lparr> id = toString 2000, title = str ''a'', description = [], priority = str ''medium'',
          status = str ''todo'', dueDate = None, createdAt = 2000 \<rparr>]) \<and>
   \<not> newestFirst
      [\<lparr> id = toString 1000, title = str ''b'', description = [], priority = str ''medium'',
          status = str ''todo'', dueDate = None, createdAt = 1000 \<rparr>,
       \<lparr> id = toString 2000, title = str ''a'', description = [], priority = str ''medium'',
          status = str ''todo'', dueDate = None, createdAt = 2000 \<rparr>]"
  by (simp add: run_def postTasks_title_only trim_a str_nonempty getTasks_def newestFirst_def)

section \<open>Statuses of stored tasks\<close>

text \<open>
  Every task of the in-memory store has one of the three statuses: a create stores an
  enumerated value or \<open>todo\<close>, an update an enumerated value or the one already there.
\<close>

lemma orElse_allowed:
  "(case v of Some s \<Rightarrow> s \<in> set xs | None \<Rightarrow> True) \<Longrightarrow> d \<in> set xs \<Longrightarrow> orElse v d \<in> set xs"
  by (simp add: orElse_def split: option.splits)

lemma handle_status_allowed:
  assumes "\<forall>t\<in>set s. status t \<in> set allowedStatus"
  shows "\<forall>t\<in>set (handle newDate s r). status t \<in> set allowedStatus"
proof (cases r)
  case (Post now dateNow b)
  have d: "str ''todo'' \<in> set allowedStatus" by (simp add: allowedStatus_def)
  from postTasks_cases [of b newDate now dateNow s] show ?thesis
  proof
    assume "(titleRejected (body.title b) \<or> toPrimitiveThrows (body.dueDate b)) \<and>
      snd (postTasks newDate now dateNow s b) = s"
    with Post assms show ?thesis by simp
  next
    assume "\<not> titleRejected (body.title b) \<and> \<not> toPrimitiveThrows (body.dueDate b) \<and>
     (\<exists>p. buildPayload newDate b = Inr p \<and>
          snd (postTasks newDate now dateNow s b) =
            \<lparr> id = toString dateNow,
              title = payload.title p,
              description = orElse (payload.description p) [],
              priority = orElse (payload.priority p) (str ''medium''),
              status = orElse (payload.status p) (str ''todo''),
              dueDate = payload.dueDate p,
              createdAt = now \<rparr> # s)"
    then obtain p where p: "buildPayload newDate b = Inr p"
      and eq: "snd (postTasks newDate now dateNow s b) =
            \<lparr> id = toString dateNow,
              title = payload.title p,
              description = orElse (payload.description p) [],
              priority = orElse (payload.priority p) (str ''medium''),
              status = orElse (payload.status p) (str ''todo''),
              dueDate = payload.dueDate p,
              createdAt = now \<rparr> # s" by blast
    from orElse_allowed [OF buildPayload_Inr_fields(3) [OF p] d] assms Post eq
    show ?thesis by simp
  qed
next
  case (Patch ident b)
  from patchTask_cases [of newDate s ident b] show ?thesis
  proof
    assume "snd (patchTask newDate s ident b) = s"
    with assms Patch show ?thesis by simp
  next
    let ?i = "nat (findIndex (\<lambda>task. id task = ident) s)"
    assume "\<exists>u. buildUpdate newDate b = Inr u \<and> findIndex (\<lambda>task. id task = ident) s \<noteq> - 1 \<and>
        snd (patchTask newDate s ident b) = s[?i := spread (s ! ?i) u]"
    then obtain u where u: "buildUpdate newDate b = Inr u"
      and ne: "findIndex (\<lambda>task. id task = ident) s \<noteq> - 1"
      and eq: "snd (patchTask newDate s ident b) = s[?i := spread (s ! ?i) u]" by blast
    from findIndex_found [OF ne] have len: "?i < length s" by simp
    then have "s ! ?i \<in> set s" by simp
    with assms have cur: "status (s ! ?i) \<in> set allowedStatus" by blast
    have "status (spread (s ! ?i) u) \<in> set allowedStatus"
      using cur by (simp add: spread_def buildUpdate_Inr_fields(5) [OF u] split: jsval.splits)
    with assms Patch eq show ?thesis
      using set_update_subset_insert [of s ?i "spread (s ! ?i) u"]
      by auto
  qed
next
  case (Delete ident)
  from deleteTask_cases [of s ident] Delete
  have "handle newDate s r = s \<or> (\<exists>i. handle newDate s r = splice1 i s)" by simp
  then have "set (handle newDate s r) \<subseteq> set s"
  proof
    assume "handle newDate s r = s"
    then show ?thesis by simp
  next
    assume "\<exists>i. handle newDate s r = splice1 i s"
    then obtain i where "handle newDate s r = splice1 i s" ..
    then show ?thesis by (simp add: set_splice1)
  qed
  with assms show ?thesis by blast
qed

lemma foldl_handle_status_allowed:
  "\<forall>t\<in>set s. status t \<in> set allowedStatus \<Longrightarrow>
     \<forall>t\<in>set (foldl (handle newDate) s reqs). status t \<in> set allowedStatus"
proof (induction reqs arbitrary: s)
  case Nil
  then show ?case by simp
next
  case (Cons r rs)
  from Cons.IH [OF handle_status_allowed [OF Cons.prems]] show ?case by simp
qed

lemma run_status_allowed: "\<forall>t\<in>set (run newDate reqs). status t \<in> set allowedStatus"
  unfolding run_def by (rule foldl_handle_status_allowed) simp

section \<open>Grouping by status\<close>

lemma status_literals:
  "str ''todo'' \<noteq> str ''in-progress''" "str ''todo'' \<noteq> str ''done''"
  "str ''in-progress'' \<noteq> str ''done''" "str ''in-progress'' \<noteq> str ''todo''"
  "str ''done'' \<noteq> str ''todo''" "str ''done'' \<noteq> str ''in-progress''"
  by (simp_all add: str_def)

lemma pushTask_allowed:
  assumes "status t \<in> set allowedStatus"
  shows "pushTask g t =
           Inr \<lparr> todo = todo g @ filter (\<lambda>t. status t = str ''todo'') [t],
                 inProgress = inProgress g @ filter (\<lambda>t. status t = str ''in-progress'') [t],
                 done' = done' g @ filter (\<lambda>t. status t = str ''done'') [t] \<rparr>"
  using assms status_literals
  by (cases g) (auto simp: pushTask_def allowedStatus_def)

lemma pushAll_allowed:
  "\<forall>t\<in>set ts. status t \<in> set allowedStatus \<Longrightarrow>
     pushAll g ts =
       Inr \<lparr> todo = todo g @ filter (\<lambda>t. status t = str ''todo'') ts,
             inProgress = inProgress g @ filter (\<lambda>t. status t = str ''in-progress'') ts,
             done' = done' g @ filter (\<lambda>t. status t = str ''done'') ts \<rparr>"
proof (induction ts arbitrary: g)
  case Nil
  show ?case by simp
next
  case (Cons t ts)
  from Cons.prems have t: "status t \<in> set allowedStatus"
    and ts: "\<forall>t\<in>set ts. status t \<in> set allowedStatus" by simp_all
  show ?case
    by (simp add: pushTask_allowed [OF t] Cons.IH [OF ts])
qed

lemma mset_three_filters:
  "\<forall>t\<in>set ts. status t \<in> set allowedStatus \<Longrightarrow>
     mset (filter (\<lambda>t. status t = str ''todo'') ts) +
     mset (filter (\<lambda>t. status t = str ''in-progress'') ts) +
     mset (filter (\<lambda>t. status t = str ''done'') ts) = mset ts"
proof (induction ts)
  case Nil
  show ?case by simp
next
  case (Cons t ts)
  from Cons.prems have "status t = str ''todo'' \<or> status t = str ''in-progress'' \<or>
      status t = str ''done''"
    by (simp add: allowedStatus_def)
  with Cons status_literals show ?case by auto
qed

text \<open>
  C9. For a collection of tasks whose statuses are among \<open>todo\<close>, \<open>in-progress\<close> and
  \<open>done\<close>, \<open>groupedTasks\<close> returns three buckets; each bucket is the sub-sequence of the
  collection, in the collection's order, of the tasks with the bucket's status, and the
  three buckets together hold every task of the collection exactly once.
\<close>

theorem groupedTasks_partitions:
  assumes "\<forall>t\<in>set tasks. status t \<in> set allowedStatus"
  shows "\<exists>g. groupedTasks tasks = Inr g \<and>
           todo g = filter (\<lambda>t. status t = str ''todo'') tasks \<and>
           inProgress g = filter (\<lambda>t. status t = str ''in-progress'') tasks \<and>
           done' g = filter (\<lambda>t. status t = str ''done'') tasks \<and>
           mset (todo g) + mset (inProgress g) + mset (done' g) = mset tasks"
proof -
  let ?g = "\<lparr> todo = filter (\<lambda>t. status t = str ''todo'') tasks,
              inProgress = filter (\<lambda>t. status t = str ''in-progress'') tasks,
              done' = filter (\<lambda>t. status t = str ''done'') tasks \<rparr>"
  have "groupedTasks tasks = Inr ?g"
    by (simp add: groupedTasks_def pushAll_allowed [OF assms])
  moreover have "mset (todo ?g) + mset (inProgress ?g) + mset (done' ?g) = mset tasks"
    using mset_three_filters [OF assms] by (simp only: groups.simps)
  ultimately show ?thesis
    by (intro exI [of _ ?g]) (simp only: groups.simps simp_thms)
qed

theorem groupedTasks_partitions_witness:
  "groupedTasks
     [\<lparr> id = str ''3'', title = str ''c'', description = [], priority = str ''low'',
         status = str ''done'', dueDate = None, createdAt = 3 \<rparr>,
      \<lparr> id = str ''2'', title = str ''b'', description = [], priority = str ''high'',
         status = str ''todo'', dueDate = None, createdAt = 2 \<rparr>,
      \<lparr> id = str ''1'', title = str ''a'', description = [], priority = str ''medium'',
         status = str ''done'', dueDate = None, createdAt = 1 \<rparr>] =
   Inr \<lparr> todo = [\<lparr> id = str ''2'', title = str ''b'', description = [], priority = str ''high'',
                     status = str ''todo'', dueDate = None, createdAt = 2 \<rparr>],
         inProgress = [],
         done' = [\<lparr> id = str ''3'', title = str ''c'', description = [], priority = str ''low'',
                     status = str ''done'', dueDate = None, createdAt = 3 \<rparr>,
                  \<lparr> id = str ''1'', title = str ''a'', description = [], priority = str ''medium'',
                     status = str ''done'', dueDate = None, createdAt = 1 \<rparr>] \<rparr>"
proof -
  let ?ts = "[\<lparr> id = str ''3'', title = str ''c'', description = [], priority = str ''low'',
         status = str ''done'', dueDate = None, createdAt = 3 \<rparr>,
      \<lparr> id = str ''2'', title = str ''b'', description = [], priority = str ''high'',
         status = str ''todo'', dueDate = None, createdAt = 2 \<rparr>,
      \<lparr> id = str ''1'', title = str ''a'', description = [], priority = str ''medium'',
         status = str ''done'', dueDate = None, createdAt = 1 \<rparr>]"
  have h: "\<forall>t\<in>set ?ts. status t \<in> set allowedStatus"
    by (simp add: allowedStatus_def)
  from groupedTasks_partitions [OF h] obtain g where
    g: "groupedTasks ?ts = Inr g" and
    f: "todo g = filter (\<lambda>t. status t = str ''todo'') ?ts"
       "inProgress g = filter (\<lambda>t. status t = str ''in-progress'') ?ts"
       "done' g = filter (\<lambda>t. status t = str ''done'') ?ts"
    by blast
  from f status_literals have "g = \<lparr> todo = [?ts ! 1], inProgress = [], done' = [?ts ! 0, ?ts ! 2] \<rparr>"
    by (cases g) simp
  with g show ?thesis by simp
qed

section \<open>Completion rate\<close>

text \<open>The rate of the empty collection is 0.\<close>

lemma completionRate_empty: "completionRate [] = 0"
  by (simp add: completionRate_def)

lemma roundQuotient_2_4:
  "roundQuotient 2 4 = \<lparr>significand = 4503599627370496, exponent = - 53\<rparr>"
  by (simp add: roundQuotient_def scaledDiv_def bitLength.simps Let_def)

lemma roundQuotient_2_4_100:
  "roundQuotient 450359962737049600 (Suc 0) = \<lparr>significand = 7036874417766400, exponent = 6\<rparr>"
  by (simp add: roundQuotient_def scaledDiv_def bitLength.simps Let_def)

lemma roundQuotient_23_40:
  "roundQuotient 23 40 = \<lparr>significand = 5179139571476070, exponent = - 53\<rparr>"
  by (simp add: roundQuotient_def scaledDiv_def bitLength.simps Let_def)

lemma roundQuotient_23_40_100:
  "roundQuotient 517913957147607000 (Suc 0) = \<lparr>significand = 8092405580431359, exponent = 6\<rparr>"
  by (simp add: roundQuotient_def scaledDiv_def bitLength.simps Let_def)

text \<open>Two tasks done out of four give 50.\<close>

lemma completionRate_2_of_4:
  assumes "length tasks = 4" and "length (filter (\<lambda>task. status task = str ''done'') tasks) = 2"
  shows "completionRate tasks = 50"
  using assms
  by (simp add: completionRate_def fmul_def fdiv_def ofNat_def Let_def mathRound_def
      roundQuotient_2_4 roundQuotient_2_4_100)

lemma completionRate_23_of_40:
  assumes "length tasks = 40" and "length (filter (\<lambda>task. status task = str ''done'') tasks) = 23"
  shows "completionRate tasks = 57"
  using assms
  by (simp add: completionRate_def fmul_def fdiv_def ofNat_def Let_def mathRound_def
      roundQuotient_23_40 roundQuotient_23_40_100)

text \<open>
  C8. For 40 tasks of which 23 are done, \<open>completionRate\<close> is 57: \<open>23 / 40\<close> rounds to
  a double below 0.575, the product with 100 to a double below 57.5, and \<open>Math.round\<close>
  gives 57, whereas \<open>100 * 23 / 40\<close> is 57.5 and rounds to 58.
\<close>

theorem completionRate_tie_rounds_down:
  "length (replicate 23
       \<lparr> id = str ''1'', title = str ''a'', description = [], priority = str ''medium'',
         status = str ''done'', dueDate = None, createdAt = 1 \<rparr> @
     replicate 17
       \<lparr> id = str ''2'', title = str ''b'', description = [], priority = str ''medium'',
         status = str ''todo'', dueDate = None, createdAt = 2 \<rparr>) = 40 \<and>
   completionRate
     (replicate 23
       \<lparr> id = str ''1'', title = str ''a'', description = [], priority = str ''medium'',
         status = str ''done'', dueDate = None, createdAt = 1 \<rparr> @
     replicate 17
       \<lparr> id = str ''2'', title = str ''b'', description = [], priority = str ''medium'',
         status = str ''todo'', dueDate = None, createdAt = 2 \<rparr>) = 57 \<and>
   round (100 * 23 / 40 :: rat) = 58"
proof -
  have r: "round (100 * 23 / 40 :: rat) = 58" by (simp add: round_def)
  have c: "completionRate
     (replicate 23
       \<lparr> id = str ''1'', title = str ''a'', description = [], priority = str ''medium'',
         status = str ''done'', dueDate = None, createdAt = 1 \<rparr> @
     replicate 17
       \<lparr> id = str ''2'', title = str ''b'', description = [], priority = str ''medium'',
         status = str ''todo'', dueDate = None, createdAt = 2 \<rparr>) = 57"
    using status_literals by (intro completionRate_23_of_40) simp_all
  from r c show ?thesis by simp
qed

end
